theory Spec2Isabelle
  imports Main "HOL-Library.Char_ord"
begin

section \<open>Regular expressions of the grammar table\<close>

text \<open>
  The rules of \<^verbatim>\<open>vhdl_tokens\<close> are Python regular expressions, matched anchored at the
  scan position (\<^verbatim>\<open>pat.match(text, pos)\<close>). The patterns of the table use literal text,
  the classes \<^verbatim>\<open>\s\<close>, \<^verbatim>\<open>\w\<close>, \<^verbatim>\<open>.\<close>, bracketed sets, greedy \<^verbatim>\<open>*\<close> and
  \<^verbatim>\<open>+\<close> over one character class, \<^verbatim>\<open>?\<close>, alternation and capturing groups.
  The matcher below enumerates the matches in the order in which a backtracking matcher
  tries them (greedy repetition first, alternatives left to right), so the head of the
  list is the match Python reports. The source is Python 2 and the patterns are compiled
  without the UNICODE flag: \<^verbatim>\<open>\s\<close> is the six ASCII white-space characters and
  \<^verbatim>\<open>\w\<close> is \<^verbatim>\<open>[a-zA-Z0-9_]\<close>.
\<close>

datatype atom =
    Chr char
  | Space
  | Word
  | Dot
  | Any_of "atom list"
  | None_of "atom list"

fun atom_matches :: "atom \<Rightarrow> char \<Rightarrow> bool" where
  "atom_matches (Chr d) c = (c = d)"
| "atom_matches Space c =
     (c = CHR '' '' \<or> c = CHR 0x0A \<or> c = CHR 0x09 \<or> c = CHR 0x0D \<or> c = CHR 0x0C \<or> c = CHR 0x0B)"
| "atom_matches Word c =
     ((CHR ''a'' \<le> c \<and> c \<le> CHR ''z'') \<or> (CHR ''A'' \<le> c \<and> c \<le> CHR ''Z'')
      \<or> (CHR ''0'' \<le> c \<and> c \<le> CHR ''9'') \<or> c = CHR ''_'')"
| "atom_matches Dot c = (c \<noteq> CHR 0x0A)"
| "atom_matches (Any_of as) c = (\<exists>a \<in> set as. atom_matches a c)"
| "atom_matches (None_of as) c = (\<not> (\<exists>a \<in> set as. atom_matches a c))"

datatype regex =
    Str string
  | One atom
  | Many atom
  | Many1 atom
  | Seq regex regex
  | Alt regex regex
  | Opt regex
  | Group nat regex

text \<open>The remaining inputs after a greedy run of characters of one class, longest run first.\<close>

fun many :: "atom \<Rightarrow> string \<Rightarrow> string list" where
  "many a [] = [[]]"
| "many a (c # s) = (if atom_matches a c then many a s @ [c # s] else [c # s])"

fun strip_prefix :: "string \<Rightarrow> string \<Rightarrow> string option" where
  "strip_prefix [] s = Some s"
| "strip_prefix (d # l) [] = None"
| "strip_prefix (d # l) (c # s) = (if c = d then strip_prefix l s else None)"

type_synonym captures = "(nat \<times> string) list"

primrec rmatch :: "regex \<Rightarrow> string \<Rightarrow> captures \<Rightarrow> (string \<times> captures) list" where
  "rmatch (Str l) s cs = (case strip_prefix l s of None \<Rightarrow> [] | Some s' \<Rightarrow> [(s', cs)])"
| "rmatch (One a) s cs =
     (case s of [] \<Rightarrow> [] | c # s' \<Rightarrow> if atom_matches a c then [(s', cs)] else [])"
| "rmatch (Many a) s cs = map (\<lambda>s'. (s', cs)) (many a s)"
| "rmatch (Many1 a) s cs =
     (case s of [] \<Rightarrow> []
      | c # s' \<Rightarrow> if atom_matches a c then map (\<lambda>s'. (s', cs)) (many a s') else [])"
| "rmatch (Seq r1 r2) s cs = concat (map (\<lambda>(s', cs'). rmatch r2 s' cs') (rmatch r1 s cs))"
| "rmatch (Alt r1 r2) s cs = rmatch r1 s cs @ rmatch r2 s cs"
| "rmatch (Opt r) s cs = rmatch r s cs @ [(s, cs)]"
| "rmatch (Group i r) s cs =
     map (\<lambda>(s', cs'). (s', (i, take (length s - length s') s) # cs')) (rmatch r s cs)"

primrec seq :: "regex list \<Rightarrow> regex" where
  "seq [] = Str []"
| "seq (r # rs) = (if rs = [] then r else Seq r (seq rs))"

primrec ngroups :: "regex \<Rightarrow> nat" where
  "ngroups (Str l) = 0"
| "ngroups (One a) = 0"
| "ngroups (Many a) = 0"
| "ngroups (Many1 a) = 0"
| "ngroups (Seq r1 r2) = max (ngroups r1) (ngroups r2)"
| "ngroups (Alt r1 r2) = max (ngroups r1) (ngroups r2)"
| "ngroups (Opt r) = ngroups r"
| "ngroups (Group i r) = max i (ngroups r)"

text \<open>
  \<^verbatim>\<open>pat.match(text, pos)\<close> on the input from \<open>pos\<close> on: the input that remains after
  the match, and \<^verbatim>\<open>m.groups()\<close>, one entry per group of the pattern, \<open>None\<close> for a
  group that took no part in the match.
\<close>

definition match_at :: "regex \<Rightarrow> string \<Rightarrow> (string \<times> string option list) option" where
  "match_at r s =
     (case rmatch r s [] of
        [] \<Rightarrow> None
      | (s', cs) # _ \<Rightarrow> Some (s', map (map_of cs) [1 ..< Suc (ngroups r)]))"


section \<open>The grammar table\<close>

datatype lstate =
    S_root | S_package | S_type_decl | S_param_list | S_param_type | S_simple_func
  | S_component | S_generic_list | S_generic_param_type | S_port_list | S_port_param_type
  | S_array_range | S_nested_parens

datatype action =
    A_package | A_function | A_procedure | A_component | A_subtype | A_constant | A_type
  | A_metacomment | A_array_type | A_file_type | A_access_type | A_record_type
  | A_range_type | A_enum_type | A_incomplete_type | A_param | A_param_type
  | A_param_default | A_end_subprogram | A_end_component | A_generic_param
  | A_generic_param_type | A_generic_param_default | A_end_generic | A_port_param
  | A_port_array_param_type | A_port_param_type | A_port_param_default | A_end_port
  | A_section_meta | A_open_paren | A_array_range_end | A_close_paren

text \<open>
  The third component of a rule: absent, a state to enter, or \<^verbatim>\<open>'#pop'\<close> /
  \<^verbatim>\<open>'#pop:n'\<close>.
\<close>

datatype directive = Stay | Push lstate | Pop nat

type_synonym rule = "regex \<times> action option \<times> directive"

abbreviation dquote :: char where "dquote \<equiv> CHR 0x22"
abbreviation squote :: char where "squote \<equiv> CHR 0x27"
abbreviation newline :: char where "newline \<equiv> CHR 0x0A"

definition comment_rule :: rule where
  "comment_rule = (seq [Str ''--'', Many Dot, Str [newline]], None, Stay)"

definition metacomment_rule :: rule where
  "metacomment_rule =
     (seq [Str ''--'', Many1 (Chr CHR ''#''), Group 1 (Many Dot), Str [newline]],
      Some A_metacomment, Stay)"

definition function_params_rule :: rule where
  "function_params_rule =
     (seq [Str ''function'', Many1 Space,
           Group 1 (Alt (Many1 Word) (seq [Str [dquote], Many1 (None_of [Chr dquote]), Str [dquote]])),
           Many Space, Str ''(''],
      Some A_function, Push S_param_list)"

definition procedure_rule :: rule where
  "procedure_rule =
     (seq [Str ''procedure'', Many1 Space, Group 1 (Many1 Word), Many Space, Str ''(''],
      Some A_procedure, Push S_param_list)"

definition simple_function_rule :: rule where
  "simple_function_rule =
     (seq [Str ''function'', Many1 Space, Group 1 (Many1 Word)],
      Some A_function, Push S_simple_func)"

definition component_rule :: rule where
  "component_rule =
     (seq [Str ''component'', Many1 Space, Group 1 (Many1 Word), Many Space, Str ''is''],
      Some A_component, Push S_component)"

definition port_modes :: regex where
  "port_modes = Alt (Str ''in'') (Alt (Str ''out'') (Alt (Str ''inout'') (Str ''buffer'')))"

definition return_clause :: regex where
  "return_clause = Opt (seq [Str ''return'', Many1 Space, Group 1 (Many1 Word), Many Space])"

fun vhdl_tokens :: "lstate \<Rightarrow> rule list" where
  "vhdl_tokens S_root =
     [(seq [Str ''package'', Many1 Space, Group 1 (Many1 Word), Many1 Space, Str ''is''],
         Some A_package, Push S_package),
      function_params_rule,
      procedure_rule,
      simple_function_rule,
      component_rule,
      comment_rule]"
| "vhdl_tokens S_package =
     [function_params_rule,
      procedure_rule,
      simple_function_rule,
      component_rule,
      (seq [Str ''subtype'', Many1 Space, Group 1 (Many1 Word), Many1 Space, Str ''is'',
            Many1 Space, Group 2 (Many1 Word)], Some A_subtype, Stay),
      (seq [Str ''constant'', Many1 Space, Group 1 (Many1 Word), Many1 Space, Str '':'',
            Many1 Space, Group 2 (Many1 Word)], Some A_constant, Stay),
      (seq [Str ''type'', Many1 Space, Group 1 (Many1 Word), Many Space, Str ''is''],
         Some A_type, Push S_type_decl),
      (seq [Str ''end'', Many1 Space, Str ''package''], None, Pop 1),
      metacomment_rule,
      comment_rule]"
| "vhdl_tokens S_type_decl =
     [(Str ''array'', Some A_array_type, Pop 1),
      (Str ''file'', Some A_file_type, Pop 1),
      (Str ''access'', Some A_access_type, Pop 1),
      (Str ''record'', Some A_record_type, Pop 1),
      (Str ''range'', Some A_range_type, Pop 1),
      (Str ''('', Some A_enum_type, Pop 1),
      (Str '';'', Some A_incomplete_type, Pop 1),
      comment_rule]"
| "vhdl_tokens S_param_list =
     [(seq [Many Space,
            Opt (Group 1 (seq [Alt (Str ''variable'') (Alt (Str ''signal'')
                                 (Alt (Str ''constant'') (Str ''file''))), Many1 Space])),
            Group 2 (Many1 Word), Many Space], Some A_param, Stay),
      (seq [Many Space, Str '','', Many Space], None, Stay),
      (seq [Many Space, Str '':'', Many Space], None, Push S_param_type),
      comment_rule]"
| "vhdl_tokens S_param_type =
     [(seq [Many Space, Opt (Group 1 (seq [port_modes, Many1 Space])),
            Group 2 (Many1 Word), Many Space], Some A_param_type, Stay),
      (seq [Many Space, Str '';'', Many Space], None, Pop 1),
      (seq [Many Space, Str '':='', Many Space,
            Group 1 (Alt (seq [Str [squote], One Dot, Str [squote]])
                         (Many1 (None_of [Space, Chr CHR '';'', Chr CHR '')''])))],
         Some A_param_default, Stay),
      (seq [Str '')'', Many Space, return_clause, Str '';''], Some A_end_subprogram, Pop 2),
      (seq [Str '')'', Many Space, return_clause, Str ''is''], None, Pop 2),
      comment_rule]"
| "vhdl_tokens S_simple_func =
     [(seq [Many1 Space, Str ''return'', Many1 Space, Group 1 (Many1 Word), Many Space, Str '';''],
         Some A_end_subprogram, Pop 1),
      (seq [Many1 Space, Str ''return'', Many1 Space, Group 1 (Many1 Word), Many1 Space, Str ''is''],
         None, Pop 1),
      comment_rule]"
| "vhdl_tokens S_component =
     [(seq [Str ''generic'', Many Space, Str ''(''], None, Push S_generic_list),
      (seq [Str ''port'', Many Space, Str ''(''], None, Push S_port_list),
      (seq [Str ''end'', Many1 Space, Str ''component'', Many Space, Str '';''],
         Some A_end_component, Pop 1),
      comment_rule]"
| "vhdl_tokens S_generic_list =
     [(seq [Many Space, Group 1 (Many1 Word), Many Space], Some A_generic_param, Stay),
      (seq [Many Space, Str '','', Many Space], None, Stay),
      (seq [Many Space, Str '':'', Many Space], None, Push S_generic_param_type),
      metacomment_rule,
      comment_rule]"
| "vhdl_tokens S_generic_param_type =
     [(seq [Many Space, Group 1 (Many1 Word), Many Space], Some A_generic_param_type, Stay),
      (seq [Many Space, Str '';'', Many Space], None, Pop 1),
      (seq [Many Space, Str '':='', Many Space, Group 1 (Many1 (Any_of [Word, Chr squote]))],
         Some A_generic_param_default, Stay),
      (seq [Str '')'', Many Space, Str '';''], Some A_end_generic, Pop 2),
      metacomment_rule,
      comment_rule]"
| "vhdl_tokens S_port_list =
     [(seq [Many Space, Group 1 (Many1 Word), Many Space], Some A_port_param, Stay),
      (seq [Many Space, Str '','', Many Space], None, Stay),
      (seq [Many Space, Str '':'', Many Space], None, Push S_port_param_type),
      (seq [Str ''--#'', Many Space, Str ''{{'', Group 1 (Many Dot), Str ''}}'', Str [newline]],
         Some A_section_meta, Stay),
      metacomment_rule,
      comment_rule]"
| "vhdl_tokens S_port_param_type =
     [(seq [Many Space, Group 1 port_modes, Many1 Space, Group 2 (Many1 Word), Many Space,
            Str ''(''], Some A_port_array_param_type, Push S_array_range),
      (seq [Many Space, Group 1 port_modes, Many1 Space, Group 2 (Many1 Word), Many Space],
         Some A_port_param_type, Stay),
      (seq [Many Space, Str '';'', Many Space], None, Pop 1),
      (seq [Many Space, Str '':='', Many Space, Group 1 (Many1 (Any_of [Word, Chr squote]))],
         Some A_port_param_default, Stay),
      (seq [Str '')'', Many Space, Str '';''], Some A_end_port, Pop 2),
      metacomment_rule,
      comment_rule]"
| "vhdl_tokens S_array_range =
     [(Str ''('', Some A_open_paren, Push S_nested_parens),
      (Str '')'', Some A_array_range_end, Pop 1)]"
| "vhdl_tokens S_nested_parens =
     [(Str ''('', Some A_open_paren, Push S_nested_parens),
      (Str '')'', Some A_close_paren, Pop 1)]"


section \<open>The lexer engine\<close>

text \<open>
  A token event is \<^verbatim>\<open>(pos, action, groups)\<close>; \<^verbatim>\<open>parse_vhdl\<close> reads \<^verbatim>\<open>pos[0]\<close> as the
  offset of the first matched character and \<^verbatim>\<open>pos[1]\<close> as the offset of the last one.
\<close>

type_synonym token = "(int \<times> int) \<times> action \<times> string option list"

datatype lex_end =
    Finished
  | No_match nat lstate
  | No_progress nat lstate
  | Empty_stack nat

datatype on_no_match = Lexical_error | Skip_char

fun first_match :: "rule list \<Rightarrow> string \<Rightarrow> (string \<times> string option list \<times> action option \<times> directive) option" where
  "first_match [] s = None"
| "first_match ((pat, act, dir) # rules) s =
     (case match_at pat s of
        Some (s', groups) \<Rightarrow> Some (s', groups, act, dir)
      | None \<Rightarrow> first_match rules s)"

fun apply_directive :: "directive \<Rightarrow> lstate list \<Rightarrow> lstate list" where
  "apply_directive Stay stack = stack"
| "apply_directive (Push s) stack = s # stack"
| "apply_directive (Pop n) stack = drop n stack"

text \<open>
  Modelled from the spec: the lexer engine \<^verbatim>\<open>MiniLexer.run\<close> of module
  \<^verbatim>\<open>minilexer\<close>, which \<^verbatim>\<open>vhdl_parser.py\<close> imports and which is not among the
  sources at hand. Section 4.1 of the specification: a state stack that starts as
  \<^verbatim>\<open>[root]\<close> and a cursor that starts at 0; the rules of the state on top of the stack
  are tried in table order, anchored at the cursor; the first that matches advances the
  cursor to the end of the match, emits a token event when its action tag is not none,
  and applies its stack directive; the run ends when the cursor reaches the end of the
  input, whatever the depth of the stack. The stack is kept with its top at the head.

  When no rule matches, the specification prescribes a fatal lexical error that reports
  the offset and the active state (\<open>Lexical_error\<close>). The grammar table has no rule for
  the characters inside an array range (the states \<^verbatim>\<open>array_range\<close> and
  \<^verbatim>\<open>nested_parens\<close> list the two parentheses only) nor for white space in the states
  \<^verbatim>\<open>root\<close>, \<^verbatim>\<open>package\<close> and \<^verbatim>\<open>component\<close>, so the engine takes the behaviour as
  its first argument: \<open>Skip_char\<close> passes over one character and goes on. A match of
  no character would leave the cursor where it is; the run stops there with
  \<open>No_progress\<close> (no rule of the table matches the empty text).
\<close>

function run :: "on_no_match \<Rightarrow> (lstate \<Rightarrow> rule list) \<Rightarrow> nat \<Rightarrow> string \<Rightarrow> lstate list
    \<Rightarrow> token list \<times> lex_end" where
  "run pol tbl pos [] stack = ([], Finished)"
| "run pol tbl pos (c # cs) [] = ([], Empty_stack pos)"
| "run pol tbl pos (c # cs) (s # stack) =
     (case first_match (tbl s) (c # cs) of
        None \<Rightarrow>
          (case pol of
             Lexical_error \<Rightarrow> ([], No_match pos s)
           | Skip_char \<Rightarrow> run pol tbl (Suc pos) cs (s # stack))
      | Some (rest, groups, act, dir) \<Rightarrow>
          (if length (c # cs) \<le> length rest then ([], No_progress pos s)
           else
             (let n = length (c # cs) - length rest
              in case run pol tbl (pos + n) rest (apply_directive dir (s # stack)) of
                   (toks, e) \<Rightarrow>
                     (case act of
                        None \<Rightarrow> (toks, e)
                      | Some a \<Rightarrow> (((int pos, int (pos + n) - 1), a, groups) # toks, e)))))"
  by pat_completeness auto
termination
  by (relation "measure (\<lambda>(pol, tbl, pos, rest, stack). length rest)") auto

definition lex :: "on_no_match \<Rightarrow> string \<Rightarrow> token list \<times> lex_end" where
  "lex pol text = run pol vhdl_tokens 0 text [S_root]"


section \<open>The object model\<close>

text \<open>
  Python values that are a string or \<^verbatim>\<open>None\<close> are \<open>string option\<close>: the captured
  groups of a match, and with them every field that is filled from one.
\<close>

record vhdl_parameter =
  name :: "string option"
  mode :: "string option"
  data_type :: "string option"
  default_value :: "string option"
  desc :: "string option"

definition VhdlParameter :: "string option \<Rightarrow> string option \<Rightarrow> string option \<Rightarrow> vhdl_parameter" where
  "VhdlParameter n m t = \<lparr>name = n, mode = m, data_type = t, default_value = None, desc = None\<rparr>"

text \<open>
  The objects, with their fields in the order of the constructors of the source:
  \<^verbatim>\<open>VhdlPackage(name)\<close>, \<^verbatim>\<open>VhdlType(name, type_of, desc)\<close>,
  \<^verbatim>\<open>VhdlSubtype(name, base_type, desc)\<close>, \<^verbatim>\<open>VhdlConstant(name, base_type, desc)\<close>,
  \<^verbatim>\<open>VhdlFunction(name, parameters, return_type, desc)\<close>,
  \<^verbatim>\<open>VhdlProcedure(name, parameters, desc)\<close> and
  \<^verbatim>\<open>VhdlComponent(name, ports, generics, sections, desc)\<close>. A package is built without
  a description, so its \<^verbatim>\<open>desc\<close> is \<^verbatim>\<open>None\<close>; every other object receives the list
  of buffered metacomments.
\<close>

datatype vhdl_object =
    VhdlPackage "string option"
  | VhdlType "string option" action "string option list"
  | VhdlSubtype "string option" "string option" "string option list"
  | VhdlConstant "string option" "string option" "string option list"
  | VhdlFunction "string option" "vhdl_parameter list" "string option" "string option list"
  | VhdlProcedure "string option" "vhdl_parameter list" "string option list"
  | VhdlComponent "string option" "vhdl_parameter list" "vhdl_parameter list"
      "int \<rightharpoonup> string option" "string option list"


fun obj_name :: "vhdl_object \<Rightarrow> string option" where
  "obj_name (VhdlPackage n) = n"
| "obj_name (VhdlType n k d) = n"
| "obj_name (VhdlSubtype n t d) = n"
| "obj_name (VhdlConstant n t d) = n"
| "obj_name (VhdlFunction n ps r d) = n"
| "obj_name (VhdlProcedure n ps d) = n"
| "obj_name (VhdlComponent n ps gs ss d) = n"

section \<open>The action interpreter\<close>

datatype error =
    LexicalError nat lstate
  | Engine_stuck nat lstate
  | IndexError
  | ValueError
  | AttributeError
  | TypeError
  | UnboundLocalError
  | KeyError
  | SyntaxError
  | Not_modelled

text \<open>
  \<^verbatim>\<open>param_items\<close> holds \<^verbatim>\<open>VhdlParameter\<close> objects while a subprogram is read and
  bare names while a component is read.
\<close>

datatype pitem = Obj vhdl_parameter | Name "string option"

text \<open>
  \<^verbatim>\<open>last_item\<close> is a reference to the parameter that was last appended to
  \<^verbatim>\<open>generics\<close> or to \<^verbatim>\<open>ports\<close>; an assignment to its \<^verbatim>\<open>desc\<close> changes the element
  of that list. \<open>Detached\<close> is a reference into a list that the \<^verbatim>\<open>component\<close> action
  has replaced by a fresh one: the parameter is no longer part of any result.
\<close>

datatype item_ref = Last_generic | Last_port | Detached

text \<open>
  The local variables of \<^verbatim>\<open>parse_vhdl\<close>. \<^verbatim>\<open>mode\<close> and \<^verbatim>\<open>ptype\<close> are unbound until
  an action assigns them (\<open>None\<close> here), and \<^verbatim>\<open>mode\<close> may then hold \<^verbatim>\<open>None\<close>.
  After \<^verbatim>\<open>end_component\<close> the variables \<^verbatim>\<open>generics\<close> and \<^verbatim>\<open>ports\<close> still refer to
  the lists of the object just emitted, until the next \<^verbatim>\<open>component\<close> action replaces
  them; \<open>lists_emitted\<close> records that, and an action that would change these lists
  then is outside the model (\<open>Not_modelled\<close>), as is an action that finds names where
  it expects parameter objects or the reverse without Python raising an error. The
  grammar table emits the generic and port actions only between \<^verbatim>\<open>component\<close> and
  \<^verbatim>\<open>end_component\<close>.
\<close>

record builder =
  cur_name :: "string option"
  cur_kind :: "string option"
  saved_type :: "string option"
  metacomments :: "string option list"
  parameters :: "vhdl_parameter list"
  param_items :: "pitem list"
  generics :: "vhdl_parameter list"
  ports :: "vhdl_parameter list"
  sections :: "(int \<times> string option) list"
  port_param_index :: int
  last_item :: "item_ref option"
  array_range_start_pos :: int
  cur_mode :: "string option option"
  cur_ptype :: "string option option"
  lists_emitted :: bool
  objects :: "vhdl_object list"

definition init :: builder where
  "init = \<lparr>cur_name = None, cur_kind = None, saved_type = None, metacomments = [],
     parameters = [], param_items = [], generics = [], ports = [], sections = [],
     port_param_index = 0, last_item = None, array_range_start_pos = 0,
     cur_mode = None, cur_ptype = None, lists_emitted = False, objects = []\<rparr>"

text \<open>\<^verbatim>\<open>xs[i:j]\<close> for integers \<open>i\<close> and \<open>j\<close>.\<close>

definition py_slice :: "'a list \<Rightarrow> int \<Rightarrow> int \<Rightarrow> 'a list" where
  "py_slice xs i j =
     (let n = int (length xs);
          i' = (if i < 0 then max (i + n) 0 else min i n);
          j' = (if j < 0 then max (j + n) 0 else min j n)
      in take (nat (j' - i')) (drop (nat i') xs))"

definition strip :: "string \<Rightarrow> string" where
  "strip s = rev (dropWhile (atom_matches Space) (rev (dropWhile (atom_matches Space) s)))"

text \<open>\<^verbatim>\<open>dict(sections)\<close>: of two pairs with the same key the later one stays.\<close>

definition dict :: "('k \<times> 'v) list \<Rightarrow> ('k \<rightharpoonup> 'v)" where
  "dict kvs = map_of (rev kvs)"

fun as_params :: "pitem list \<Rightarrow> error + vhdl_parameter list" where
  "as_params [] = Inr []"
| "as_params (Obj p # is) = (case as_params is of Inl e \<Rightarrow> Inl e | Inr ps \<Rightarrow> Inr (p # ps))"
| "as_params (Name n # is) = Inl Not_modelled"

fun as_names :: "pitem list \<Rightarrow> error + string option list" where
  "as_names [] = Inr []"
| "as_names (Name n # is) = (case as_names is of Inl e \<Rightarrow> Inl e | Inr ns \<Rightarrow> Inr (n # ns))"
| "as_names (Obj p # is) = Inl Not_modelled"

text \<open>An attribute assignment to every item: a name (a string or \<^verbatim>\<open>None\<close>) has no attributes.\<close>

fun set_attrs :: "(vhdl_parameter \<Rightarrow> vhdl_parameter) \<Rightarrow> pitem list \<Rightarrow> error + pitem list" where
  "set_attrs f [] = Inr []"
| "set_attrs f (Obj p # is) = (case set_attrs f is of Inl e \<Rightarrow> Inl e | Inr ps \<Rightarrow> Inr (Obj (f p) # ps))"
| "set_attrs f (Name n # is) = Inl AttributeError"

fun set_last_desc :: "string option \<Rightarrow> vhdl_parameter list \<Rightarrow> vhdl_parameter list" where
  "set_last_desc d [] = []"
| "set_last_desc d [p] = [p\<lparr>desc := d\<rparr>]"
| "set_last_desc d (p # q # ps) = p # set_last_desc d (q # ps)"

definition detach :: "item_ref option \<Rightarrow> item_ref option" where
  "detach r = (case r of None \<Rightarrow> None | Some x \<Rightarrow> Some Detached)"

definition emit :: "vhdl_object \<Rightarrow> builder \<Rightarrow> builder" where
  "emit vobj b = b\<lparr>objects := objects b @ [vobj]\<rparr>"

definition type_action :: "action \<Rightarrow> builder \<Rightarrow> error + builder" where
  "type_action a b =
     Inr ((emit (VhdlType (saved_type b) a (metacomments b)) b)
            \<lparr>cur_kind := None, cur_name := None, metacomments := []\<rparr>)"

fun interp :: "string \<Rightarrow> builder \<Rightarrow> token \<Rightarrow> error + builder" where
  "interp text b (pos, A_metacomment, groups) =
     (case groups of
        [] \<Rightarrow> Inl IndexError
      | g # _ \<Rightarrow>
          (case last_item b of
             None \<Rightarrow> Inr (b\<lparr>metacomments := metacomments b @ [g]\<rparr>)
           | Some Last_generic \<Rightarrow> Inr (b\<lparr>generics := set_last_desc g (generics b)\<rparr>)
           | Some Last_port \<Rightarrow> Inr (b\<lparr>ports := set_last_desc g (ports b)\<rparr>)
           | Some Detached \<Rightarrow> Inr b))"
| "interp text b (pos, A_section_meta, groups) =
     (case groups of
        [] \<Rightarrow> Inl IndexError
      | g # _ \<Rightarrow> Inr (b\<lparr>sections := sections b @ [(port_param_index b, g)]\<rparr>))"
| "interp text b (pos, A_function, groups) =
     (case groups of
        [] \<Rightarrow> Inl IndexError
      | g # _ \<Rightarrow> Inr (b\<lparr>cur_kind := Some ''function'', cur_name := g,
                          param_items := [], parameters := []\<rparr>))"
| "interp text b (pos, A_procedure, groups) =
     (case groups of
        [] \<Rightarrow> Inl IndexError
      | g # _ \<Rightarrow> Inr (b\<lparr>cur_kind := Some ''procedure'', cur_name := g,
                          param_items := [], parameters := []\<rparr>))"
| "interp text b (pos, A_param, groups) =
     (case as_params (param_items b) of
        Inl e \<Rightarrow> Inl e
      | Inr ps \<Rightarrow>
          (case groups of
             _ # g # _ \<Rightarrow> Inr (b\<lparr>parameters := parameters b @ ps,
                                  param_items := [Obj (VhdlParameter g None None)]\<rparr>)
           | _ \<Rightarrow> Inl IndexError))"
| "interp text b (pos, A_param_type, groups) =
     (case groups of
        [m, ptype] \<Rightarrow>
          (let m' = map_option strip m in
           case set_attrs (\<lambda>i. i\<lparr>mode := m', data_type := ptype\<rparr>) (param_items b) of
             Inl e \<Rightarrow> Inl e
           | Inr is \<Rightarrow> Inr (b\<lparr>cur_mode := Some m', cur_ptype := Some ptype, param_items := is\<rparr>))
      | _ \<Rightarrow> Inl ValueError)"
| "interp text b (pos, A_param_default, groups) =
     (if param_items b = [] then Inr b
      else
        (case groups of
           [] \<Rightarrow> Inl IndexError
         | g # _ \<Rightarrow>
             (case set_attrs (\<lambda>i. i\<lparr>default_value := g\<rparr>) (param_items b) of
                Inl e \<Rightarrow> Inl e
              | Inr is \<Rightarrow> Inr (b\<lparr>param_items := is\<rparr>))))"
| "interp text b (pos, A_end_subprogram, groups) =
     (case as_params (param_items b) of
        Inl e \<Rightarrow> Inl e
      | Inr ps \<Rightarrow>
          (let done = b\<lparr>metacomments := [], parameters := [], param_items := [],
                         cur_kind := None, cur_name := None\<rparr>
           in if cur_kind b = Some ''function'' then
                (case groups of
                   [] \<Rightarrow> Inl IndexError
                 | g # _ \<Rightarrow>
                     Inr (emit (VhdlFunction (cur_name b) (parameters b @ ps) g (metacomments b)) done))
              else Inr (emit (VhdlProcedure (cur_name b) (parameters b @ ps) (metacomments b)) done)))"
| "interp text b (pos, A_component, groups) =
     (case groups of
        [] \<Rightarrow> Inl IndexError
      | g # _ \<Rightarrow> Inr (b\<lparr>cur_kind := Some ''component'', cur_name := g, generics := [],
                          ports := [], param_items := [], sections := [],
                          port_param_index := 0, lists_emitted := False,
                          last_item := detach (last_item b)\<rparr>))"
| "interp text b (pos, A_generic_param, groups) =
     (case groups of
        [] \<Rightarrow> Inl IndexError
      | g # _ \<Rightarrow> Inr (b\<lparr>param_items := param_items b @ [Name g]\<rparr>))"
| "interp text b (pos, A_generic_param_type, groups) =
     (case groups of
        [] \<Rightarrow> Inl IndexError
      | ptype # _ \<Rightarrow>
          (if lists_emitted b then Inl Not_modelled
           else
             (case as_names (param_items b) of
                Inl e \<Rightarrow> Inl e
              | Inr ns \<Rightarrow>
                  (let gs = generics b @ map (\<lambda>i. VhdlParameter i (Some ''in'') ptype) ns
                   in if gs = [] then Inl IndexError
                      else Inr (b\<lparr>cur_ptype := Some ptype, generics := gs, param_items := [],
                                  last_item := Some Last_generic\<rparr>)))))"
| "interp text b (pos, A_port_param, groups) =
     (case groups of
        [] \<Rightarrow> Inl IndexError
      | g # _ \<Rightarrow> Inr (b\<lparr>param_items := param_items b @ [Name g],
                          port_param_index := port_param_index b + 1\<rparr>))"
| "interp text b (pos, A_port_param_type, groups) =
     (case groups of
        [m, ptype] \<Rightarrow>
          (if lists_emitted b then Inl Not_modelled
           else
             (case as_names (param_items b) of
                Inl e \<Rightarrow> Inl e
              | Inr ns \<Rightarrow>
                  (let ps = ports b @ map (\<lambda>i. VhdlParameter i m ptype) ns
                   in if ps = [] then Inl IndexError
                      else Inr (b\<lparr>cur_mode := Some m, cur_ptype := Some ptype, ports := ps,
                                  param_items := [], last_item := Some Last_port\<rparr>))))
      | _ \<Rightarrow> Inl ValueError)"
| "interp text b (pos, A_port_array_param_type, groups) =
     (case groups of
        [m, ptype] \<Rightarrow> Inr (b\<lparr>cur_mode := Some m, cur_ptype := Some ptype,
                             array_range_start_pos := snd pos\<rparr>)
      | _ \<Rightarrow> Inl ValueError)"
| "interp text b (pos, A_array_range_end, groups) =
     (let arange = py_slice text (array_range_start_pos b) (fst pos + 1)
      in if lists_emitted b then Inl Not_modelled
         else
           (case as_names (param_items b) of
              Inl e \<Rightarrow> Inl e
            | Inr ns \<Rightarrow>
                (case (if ns = [] then Inr []
                       else (case (cur_mode b, cur_ptype b) of
                               (Some m, Some (Some ptype)) \<Rightarrow>
                                 Inr (map (\<lambda>i. VhdlParameter i m (Some (ptype @ arange))) ns)
                             | (Some m, Some None) \<Rightarrow> Inl TypeError
                             | _ \<Rightarrow> Inl UnboundLocalError)) of
                   Inl e \<Rightarrow> Inl e
                 | Inr new \<Rightarrow>
                     (if ports b @ new = [] then Inl IndexError
                      else Inr (b\<lparr>ports := ports b @ new, param_items := [],
                                  last_item := Some Last_port\<rparr>)))))"
| "interp text b (pos, A_end_component, groups) =
     Inr ((emit (VhdlComponent (cur_name b) (ports b) (generics b) (dict (sections b))
                   (metacomments b)) b)
            \<lparr>last_item := None, metacomments := [], lists_emitted := True\<rparr>)"
| "interp text b (pos, A_package, groups) =
     (case groups of
        [] \<Rightarrow> Inl IndexError
      | g # _ \<Rightarrow> Inr ((emit (VhdlPackage g) b)\<lparr>cur_kind := None, cur_name := None\<rparr>))"
| "interp text b (pos, A_type, groups) =
     (case groups of
        [] \<Rightarrow> Inl IndexError
      | g # _ \<Rightarrow> Inr (b\<lparr>saved_type := g\<rparr>))"
| "interp text b (pos, A_array_type, groups) = type_action A_array_type b"
| "interp text b (pos, A_file_type, groups) = type_action A_file_type b"
| "interp text b (pos, A_access_type, groups) = type_action A_access_type b"
| "interp text b (pos, A_record_type, groups) = type_action A_record_type b"
| "interp text b (pos, A_range_type, groups) = type_action A_range_type b"
| "interp text b (pos, A_enum_type, groups) = type_action A_enum_type b"
| "interp text b (pos, A_incomplete_type, groups) = type_action A_incomplete_type b"
| "interp text b (pos, A_subtype, groups) =
     (case groups of
        g # h # _ \<Rightarrow>
          Inr ((emit (VhdlSubtype g h (metacomments b)) b)
                 \<lparr>cur_kind := None, cur_name := None, metacomments := []\<rparr>)
      | _ \<Rightarrow> Inl IndexError)"
| "interp text b (pos, A_constant, groups) =
     (case groups of
        g # h # _ \<Rightarrow>
          Inr ((emit (VhdlConstant g h (metacomments b)) b)
                 \<lparr>cur_kind := None, cur_name := None, metacomments := []\<rparr>)
      | _ \<Rightarrow> Inl IndexError)"
| "interp text b (pos, a, groups) = Inr b"

fun interp_all :: "string \<Rightarrow> builder \<Rightarrow> token list \<Rightarrow> error + builder" where
  "interp_all text b [] = Inr b"
| "interp_all text b (t # ts) =
     (case interp text b t of Inl e \<Rightarrow> Inl e | Inr b' \<Rightarrow> interp_all text b' ts)"

text \<open>
  \<^verbatim>\<open>parse_vhdl(text)\<close>: the loop over the token events of the lexer. The events are
  consumed as the engine produces them, so an error of the interpreter comes before an
  error that the engine meets further on in the text.
\<close>

definition parse_vhdl :: "on_no_match \<Rightarrow> string \<Rightarrow> error + vhdl_object list" where
  "parse_vhdl pol text =
     (case lex pol text of
        (toks, e) \<Rightarrow>
          (case interp_all text init toks of
             Inl err \<Rightarrow> Inl err
           | Inr b \<Rightarrow>
               (case e of
                  Finished \<Rightarrow> Inr (objects b)
                | No_match p s \<Rightarrow> Inl (LexicalError p s)
                | No_progress p s \<Rightarrow> Inl (Engine_stuck p s)
                | Empty_stack p \<Rightarrow> Inl IndexError)))"



section \<open>The extraction facade: the registry of array types\<close>

text \<open>
  \<^verbatim>\<open>str.lower()\<close> on the letters \<^verbatim>\<open>A\<close> to \<^verbatim>\<open>Z\<close>; every other character stays.
\<close>

definition lower_char :: "char \<Rightarrow> char" where
  "lower_char c =
     (case map_of (zip ''ABCDEFGHIJKLMNOPQRSTUVWXYZ'' ''abcdefghijklmnopqrstuvwxyz'') c of
        Some d \<Rightarrow> d
      | None \<Rightarrow> c)"

definition lower :: "string \<Rightarrow> string" where
  "lower s = map lower_char s"

text \<open>
  \<^verbatim>\<open>self.array_types\<close> is a set; its elements are the names of objects, which are
  strings or \<^verbatim>\<open>None\<close>. \<^verbatim>\<open>__init__\<close> seeds it with five names and adds the argument.
\<close>

type_synonym registry = "string option set"

definition seed_types :: registry where
  "seed_types = {Some ''std_ulogic_vector'', Some ''std_logic_vector'', Some ''signed'',
     Some ''unsigned'', Some ''bit_vector''}"

definition new_extractor :: "registry \<Rightarrow> registry" where
  "new_extractor array_types = seed_types \<union> array_types"

definition is_array :: "registry \<Rightarrow> string \<Rightarrow> bool" where
  "is_array array_types dt = (Some (lower dt) \<in> array_types)"

fun array_type_names :: "vhdl_object list \<Rightarrow> string option list" where
  "array_type_names [] = []"
| "array_type_names (VhdlType n k d # os) =
     (if k = A_array_type then n # array_type_names os else array_type_names os)"
| "array_type_names (x # os) = array_type_names os"

fun subtype_pairs :: "vhdl_object list \<Rightarrow> (string option \<times> string option) list" where
  "subtype_pairs [] = []"
| "subtype_pairs (VhdlSubtype n b d # os) = (n, b) # subtype_pairs os"
| "subtype_pairs (x # os) = subtype_pairs os"

text \<open>
  The loop \<^verbatim>\<open>while v in subtypes: v = subtypes[v]\<close>. It may run forever, so the result
  is an option: \<open>None\<close> stands for a loop that does not return.
\<close>

partial_function (option) follow :: "('a \<rightharpoonup> 'a) \<Rightarrow> 'a \<Rightarrow> 'a option" where
  "follow subtypes v =
     (case subtypes v of None \<Rightarrow> Some v | Some v' \<Rightarrow> follow subtypes v')"

text \<open>
  The loop over \<^verbatim>\<open>subtypes.iteritems()\<close>: every key once, with the value the dictionary
  holds for it. Python does not fix the order of the keys; the items are taken here in
  the order in which the keys first occur.
\<close>

definition dict_items :: "('k \<times> 'v) list \<Rightarrow> ('k \<times> 'v) list" where
  "dict_items kvs = map (\<lambda>k. (k, the (dict kvs k))) (remdups (map fst kvs))"

fun register_loop :: "('a \<rightharpoonup> 'a) \<Rightarrow> ('a \<times> 'a) list \<Rightarrow> 'a set \<Rightarrow> 'a set option" where
  "register_loop subtypes [] array_types = Some array_types"
| "register_loop subtypes ((k, v) # kvs) array_types =
     (case follow subtypes v of
        None \<Rightarrow> None
      | Some v' \<Rightarrow>
          register_loop subtypes kvs
            (if v' \<in> array_types then insert k array_types else array_types))"

definition register_array_types :: "registry \<Rightarrow> vhdl_object list \<Rightarrow> registry option" where
  "register_array_types array_types objs =
     (let subtypes = subtype_pairs objs
      in register_loop (dict subtypes) (dict_items subtypes)
           (array_types \<union> set (array_type_names objs)))"

text \<open>The relation from the name of a subtype to its base type, as the dictionary holds it.\<close>

definition subtype_rel :: "vhdl_object list \<Rightarrow> (string option \<times> string option) set" where
  "subtype_rel objs = {(k, v). dict (subtype_pairs objs) k = Some v}"

subsection \<open>The registry file\<close>

text \<open>
  The values \<^verbatim>\<open>ast.literal_eval\<close> can return: strings, numbers, tuples, lists,
  dictionaries, booleans and \<^verbatim>\<open>None\<close>. \<open>PyFloat\<close> stands for any number that is
  not an integer.
\<close>

datatype pyval =
    PyNone
  | PyBool bool
  | PyInt int
  | PyFloat
  | PyStr string
  | PyList "pyval list"
  | PyTuple "pyval list"
  | PyDict "(pyval \<times> pyval) list"

text \<open>
  \<^verbatim>\<open>ast.literal_eval\<close> belongs to the Python library; \<^verbatim>\<open>load_array_types\<close> is
  modelled on its outcome for the content of the file: a value, or the exception it raises
  (\<^verbatim>\<open>SyntaxError\<close> for a text that is no Python expression, as the empty text;
  \<^verbatim>\<open>ValueError\<close> for an expression that is no literal, as \<^verbatim>\<open>foo\<close>).
\<close>

datatype eval_outcome = Evaluates pyval | Fails error

fun substring :: "string \<Rightarrow> string \<Rightarrow> bool" where
  "substring p [] = (p = [])"
| "substring p (c # s) = (strip_prefix p (c # s) \<noteq> None \<or> substring p s)"

text \<open>\<^verbatim>\<open>'arrays' in type_defs\<close>\<close>

fun has_arrays :: "pyval \<Rightarrow> error + bool" where
  "has_arrays (PyDict kvs) = Inr (PyStr ''arrays'' \<in> fst ` set kvs)"
| "has_arrays (PyList xs) = Inr (PyStr ''arrays'' \<in> set xs)"
| "has_arrays (PyTuple xs) = Inr (PyStr ''arrays'' \<in> set xs)"
| "has_arrays (PyStr s) = Inr (substring ''arrays'' s)"
| "has_arrays v = Inl TypeError"

text \<open>\<^verbatim>\<open>type_defs['arrays']\<close>\<close>

fun get_arrays :: "pyval \<Rightarrow> error + pyval" where
  "get_arrays (PyDict kvs) =
     (case dict kvs (PyStr ''arrays'') of None \<Rightarrow> Inl KeyError | Some v \<Rightarrow> Inr v)"
| "get_arrays v = Inl TypeError"

fun hashable :: "pyval \<Rightarrow> bool" where
  "hashable (PyList xs) = False"
| "hashable (PyDict kvs) = False"
| "hashable (PyTuple xs) = (\<forall>x \<in> set xs. hashable x)"
| "hashable v = True"

text \<open>The elements that \<^verbatim>\<open>set(v)\<close> iterates over.\<close>

fun py_iter :: "pyval \<Rightarrow> error + pyval list" where
  "py_iter (PyList xs) = Inr xs"
| "py_iter (PyTuple xs) = Inr xs"
| "py_iter (PyStr s) = Inr (map (\<lambda>c. PyStr [c]) s)"
| "py_iter (PyDict kvs) = Inr (map fst kvs)"
| "py_iter v = Inl TypeError"

fun is_name :: "pyval \<Rightarrow> bool" where
  "is_name (PyStr s) = True"
| "is_name PyNone = True"
| "is_name v = False"

fun the_name :: "pyval \<Rightarrow> string option" where
  "the_name (PyStr s) = Some s"
| "the_name v = None"

text \<open>
  \<^verbatim>\<open>add_array_types\<close>: \<^verbatim>\<open>self.array_types |= set(type_defs['arrays'])\<close>. The
  registry of the model holds names, that is strings and \<^verbatim>\<open>None\<close>. An element that can
  be hashed and is no name (a number, a boolean, a tuple) enters the Python set all the
  same; no name is equal to it, so it answers no query of \<^verbatim>\<open>is_array\<close> and no test of
  \<^verbatim>\<open>register_array_types\<close>. The model returns these elements beside the registry,
  in the order in which \<^verbatim>\<open>set\<close> meets them.
\<close>

definition add_array_types :: "registry \<Rightarrow> pyval \<Rightarrow> error + registry \<times> pyval list" where
  "add_array_types array_types type_defs =
     (case has_arrays type_defs of
        Inl e \<Rightarrow> Inl e
      | Inr False \<Rightarrow> Inr (array_types, [])
      | Inr True \<Rightarrow>
          (case get_arrays type_defs of
             Inl e \<Rightarrow> Inl e
           | Inr v \<Rightarrow>
               (case py_iter v of
                  Inl e \<Rightarrow> Inl e
                | Inr xs \<Rightarrow>
                    if \<exists>x \<in> set xs. \<not> hashable x then Inl TypeError
                    else Inr (array_types \<union> the_name ` set (filter is_name xs),
                              filter (\<lambda>x. \<not> is_name x) xs))))"

text \<open>
  \<^verbatim>\<open>load_array_types\<close>: only \<^verbatim>\<open>SyntaxError\<close> is caught and replaced by the empty
  dictionary. \<open>Inl e\<close> is an exception that leaves the method; it is raised before
  \<^verbatim>\<open>self.array_types\<close> is assigned, so the registry is then as it was.
\<close>

definition load_array_types :: "registry \<Rightarrow> eval_outcome \<Rightarrow> error + registry \<times> pyval list" where
  "load_array_types array_types literal_eval =
     (case literal_eval of
        Evaluates type_defs \<Rightarrow> add_array_types array_types type_defs
      | Fails SyntaxError \<Rightarrow> add_array_types array_types (PyDict [])
      | Fails e \<Rightarrow> Inl e)"
section \<open>Example inputs\<close>

text \<open>The text \<^verbatim>\<open>function "+" (l : integer; r : integer) return integer;\<close>\<close>

definition function_plus_text :: string where
  "function_plus_text =
     ''function '' @ [dquote] @ ''+'' @ [dquote] @ '' (l : integer; r : integer) return integer;''"

text \<open>The subtypes \<^verbatim>\<open>a\<close> of \<^verbatim>\<open>b\<close> and \<^verbatim>\<open>b\<close> of \<^verbatim>\<open>a\<close>.\<close>

definition cyclic_subtypes :: "vhdl_object list" where
  "cyclic_subtypes = [VhdlSubtype (Some ''a'') (Some ''b'') [], VhdlSubtype (Some ''b'') (Some ''a'') []]"

text \<open>An array type \<^verbatim>\<open>A\<close>, a subtype \<^verbatim>\<open>B\<close> of it and a subtype \<^verbatim>\<open>C\<close> of \<^verbatim>\<open>B\<close>.\<close>

definition subtype_chain :: "vhdl_object list" where
  "subtype_chain =
     [VhdlType (Some ''A'') A_array_type [], VhdlSubtype (Some ''B'') (Some ''A'') [],
      VhdlSubtype (Some ''C'') (Some ''B'') []]"

text \<open>
  The component \<^verbatim>\<open>adder\<close> of the specification, one generic with a default value and
  three ports with an array range.
\<close>

definition adder_text :: string where
  "adder_text =
     ''component adder is'' @ [newline] @
     ''  generic ( WIDTH : integer := 8 );'' @ [newline] @
     ''  port ( a : in std_logic_vector(WIDTH-1 downto 0);'' @ [newline] @
     ''         b : in std_logic_vector(WIDTH-1 downto 0);'' @ [newline] @
     ''         sum : out std_logic_vector(WIDTH-1 downto 0) );'' @ [newline] @
     ''end component;''"

text \<open>A component with the same generic, written so that every character is matched by a rule.\<close>

definition compact_generic_text :: string where
  "compact_generic_text = ''component adder isgeneric(WIDTH : integer:= 8);end component;''"






section \<open>Reading the token stream\<close>





section \<open>Array ranges\<close>



text \<open>The state stack inside a range with \<open>d\<close> parentheses open.\<close>

fun range_stack :: "nat \<Rightarrow> lstate list \<Rightarrow> lstate list" where
  "range_stack 0 stk = S_array_range # stk"
| "range_stack (Suc d) stk = S_nested_parens # range_stack d stk"


section \<open>Descriptions\<close>




section \<open>End-to-end examples\<close>

lemmas table_defs =
  comment_rule_def metacomment_rule_def function_params_rule_def procedure_rule_def
  simple_function_rule_def component_rule_def port_modes_def return_clause_def

lemmas parse_defs =
  parse_vhdl_def lex_def match_at_def init_def emit_def type_action_def VhdlParameter_def
  strip_def py_slice_def dict_def detach_def

text \<open>
  Claim C1. Parsing the text \<^verbatim>\<open>function "+" (l : integer; r : integer) return integer;\<close>
  yields exactly one object, a function whose name is \<^verbatim>\<open>"+"\<close> with its two quote
  characters, whose return type is \<^verbatim>\<open>integer\<close> and whose parameters are \<^verbatim>\<open>l\<close> then
  \<^verbatim>\<open>r\<close>, each of type \<^verbatim>\<open>integer\<close>, without default value and with mode \<^verbatim>\<open>None\<close>
  (not \<^verbatim>\<open>in\<close>). Every character of the text is matched by a rule, so the result does
  not depend on what the engine does when no rule matches.
\<close>

theorem C1_function_plus:
  "parse_vhdl pol function_plus_text =
     Inr [VhdlFunction (Some ([dquote] @ ''+'' @ [dquote]))
            [\<lparr>name = Some ''l'', mode = None, data_type = Some ''integer'',
               default_value = None, desc = None\<rparr>,
             \<lparr>name = Some ''r'', mode = None, data_type = Some ''integer'',
               default_value = None, desc = None\<rparr>]
            (Some ''integer'') []]"
  by (simp add: function_plus_text_def parse_defs table_defs)

text \<open>
  The generic of the component \<^verbatim>\<open>adder\<close> written without unmatched characters: with
  either behaviour of the engine the generic has no default value.
\<close>

lemma compact_generic_parse:
  "parse_vhdl pol compact_generic_text =
     Inr [VhdlComponent (Some ''adder'') []
            [\<lparr>name = Some ''WIDTH'', mode = Some ''in'', data_type = Some ''integer'',
               default_value = None, desc = None\<rparr>] Map.empty []]"
  by (simp add: compact_generic_text_def parse_defs table_defs)

lemma adder_skipping:
  "parse_vhdl Skip_char adder_text =
     Inr [VhdlComponent (Some ''adder'')
            [\<lparr>name = Some ''a'', mode = Some ''in'',
               data_type = Some ''std_logic_vector(WIDTH-1 downto 0)'',
               default_value = None, desc = None\<rparr>,
             \<lparr>name = Some ''b'', mode = Some ''in'',
               data_type = Some ''std_logic_vector(WIDTH-1 downto 0)'',
               default_value = None, desc = None\<rparr>,
             \<lparr>name = Some ''sum'', mode = Some ''out'',
               data_type = Some ''std_logic_vector(WIDTH-1 downto 0)'',
               default_value = None, desc = None\<rparr>]
            [\<lparr>name = Some ''WIDTH'', mode = Some ''in'', data_type = Some ''integer'',
               default_value = None, desc = None\<rparr>] Map.empty []]"
  by (simp add: adder_text_def parse_defs table_defs)

lemma adder_strict: "parse_vhdl Lexical_error adder_text = Inl (LexicalError 18 S_component)"
  by (simp add: adder_text_def parse_defs table_defs)

text \<open>
  Claim C2. Parsing the component \<^verbatim>\<open>adder\<close> should yield one component with the
  generic \<^verbatim>\<open>WIDTH\<close>, mode \<^verbatim>\<open>in\<close>, type \<^verbatim>\<open>integer\<close>, default value \<^verbatim>\<open>8\<close>, and the
  three ports \<^verbatim>\<open>a\<close>, \<^verbatim>\<open>b\<close>, \<^verbatim>\<open>sum\<close> whose types end in
  \<^verbatim>\<open>(WIDTH-1 downto 0)\<close>. With an engine that passes over unmatched characters the
  component, its generic and its ports are as the claim says, except that the default
  value of the generic is \<^verbatim>\<open>None\<close>: the table emits \<^verbatim>\<open>generic_param_default\<close> with
  the captured \<^verbatim>\<open>8\<close>, and \<^verbatim>\<open>parse_vhdl\<close> has no branch for that action (the branch
  \<^verbatim>\<open>param_default\<close> of subprograms stores the value). With the engine of the
  specification, which fails when no rule matches, the text is rejected at offset 18,
  the line break after \<^verbatim>\<open>is\<close>, in the state \<^verbatim>\<open>component\<close>.
\<close>

theorem C2_adder_generic_default_lost:
  "parse_vhdl Skip_char adder_text =
     Inr [VhdlComponent (Some ''adder'')
            [\<lparr>name = Some ''a'', mode = Some ''in'',
               data_type = Some ''std_logic_vector(WIDTH-1 downto 0)'',
               default_value = None, desc = None\<rparr>,
             \<lparr>name = Some ''b'', mode = Some ''in'',
               data_type = Some ''std_logic_vector(WIDTH-1 downto 0)'',
               default_value = None, desc = None\<rparr>,
             \<lparr>name = Some ''sum'', mode = Some ''out'',
               data_type = Some ''std_logic_vector(WIDTH-1 downto 0)'',
               default_value = None, desc = None\<rparr>]
            [\<lparr>name = Some ''WIDTH'', mode = Some ''in'', data_type = Some ''integer'',
               default_value = None, desc = None\<rparr>] Map.empty []]
   \<and> parse_vhdl Lexical_error adder_text = Inl (LexicalError 18 S_component)"
  using adder_skipping adder_strict by simp

section \<open>Properties of the registry of array types\<close>

subsection \<open>Termination of the registration\<close>

lemma follow_avoids_cycle:
  assumes f: "follow s v = Some r" and c: "s a = Some b" "s b = Some a"
  shows "v \<noteq> a \<and> v \<noteq> b"
proof -
  have "s = s \<longrightarrow> v \<noteq> a \<and> v \<noteq> b"
  proof (rule follow.raw_induct[where P = "\<lambda>s' v r. s' = s \<longrightarrow> v \<noteq> a \<and> v \<noteq> b", OF _ f])
    fix follow' s' v r
    assume IH: "\<And>s'' v r. follow' s'' v = Some r \<Longrightarrow> s'' = s \<longrightarrow> v \<noteq> a \<and> v \<noteq> b"
      and step: "(case s' v of None \<Rightarrow> Some v | Some v' \<Rightarrow> follow' s' v') = Some r"
    show "s' = s \<longrightarrow> v \<noteq> a \<and> v \<noteq> b"
      using IH step c by (auto split: option.splits)
  qed
  then show ?thesis by simp
qed

lemma follow_cycle: "m a = Some b \<Longrightarrow> m b = Some a \<Longrightarrow> follow m a = None"
  using follow_avoids_cycle[of m a _ a b] by (cases "follow m a") auto

lemma follow_terminates:
  assumes "wf {(v', v). subtypes v = Some v'}"
  shows "\<exists>r. follow subtypes v = Some r"
  using assms
proof (induction v rule: wf_induct_rule)
  case (less v)
  show ?case
  proof (cases "subtypes v")
    case None
    then show ?thesis by (subst follow.simps) simp
  next
    case (Some v')
    with less.IH[of v'] show ?thesis by (subst follow.simps) simp
  qed
qed

lemma register_loop_terminates:
  assumes "\<And>v. \<exists>r. follow subtypes v = Some r"
  shows "\<exists>r. register_loop subtypes kvs A = Some r"
proof (induction kvs arbitrary: A)
  case Nil
  show ?case by simp
next
  case (Cons kv kvs)
  obtain k v where kv: "kv = (k, v)" by (cases kv)
  from assms obtain t where "follow subtypes v = Some t" by blast
  with Cons kv show ?case by simp
qed

lemma finite_dict_graph: "finite {(k, v). dict kvs k = Some v}"
proof -
  have "{(k, v). dict kvs k = Some v} \<subseteq> set kvs"
    by (auto simp: dict_def dest: map_of_SomeD)
  then show ?thesis by (rule finite_subset) simp
qed

lemma acyclic_subtypes_wf:
  assumes "acyclic (subtype_rel objs)"
  shows "wf {(v', v). dict (subtype_pairs objs) v = Some v'}"
proof -
  have "finite (subtype_rel objs)"
    unfolding subtype_rel_def by (rule finite_dict_graph)
  then have "wf ((subtype_rel objs)\<inverse>)"
    using assms by (rule finite_acyclic_wf_converse)
  moreover have "(subtype_rel objs)\<inverse> = {(v', v). dict (subtype_pairs objs) v = Some v'}"
    by (auto simp: subtype_rel_def)
  ultimately show ?thesis by simp
qed

lemma register_terminates_if_acyclic:
  assumes "acyclic (subtype_rel objs)"
  shows "\<exists>r. register_array_types array_types objs = Some r"
  unfolding register_array_types_def Let_def
  by (rule register_loop_terminates) (rule follow_terminates, rule acyclic_subtypes_wf, rule assms)

lemma register_cycle_diverges: "register_array_types array_types cyclic_subtypes = None"
proof -
  have "follow (dict [(Some ''a'', Some ''b''), (Some ''b'', Some ''a'')]) (Some ''b'') = None"
    by (rule follow_cycle[where b = "Some ''a''"]) (simp_all add: dict_def)
  then show ?thesis
    by (simp add: register_array_types_def cyclic_subtypes_def dict_items_def dict_def)
qed

text \<open>
  Claim C10. \<^verbatim>\<open>register_array_types\<close> returns for every sequence of objects whose
  relation from subtype name to base type has no cycle; for the two subtypes \<^verbatim>\<open>a\<close> of
  \<^verbatim>\<open>b\<close> and \<^verbatim>\<open>b\<close> of \<^verbatim>\<open>a\<close> the loop that follows the chain of base types never
  ends, so the registration does not return.
\<close>

theorem C10_register_termination:
  "(\<forall>array_types objs. acyclic (subtype_rel objs) \<longrightarrow>
      (\<exists>r. register_array_types array_types objs = Some r))
   \<and> register_array_types seed_types cyclic_subtypes = None"
  using register_terminates_if_acyclic register_cycle_diverges by blast

lemma subtype_chain_rel:
  "subtype_rel subtype_chain = {(Some ''C'', Some ''B''), (Some ''B'', Some ''A'')}"
  by (auto simp: subtype_rel_def subtype_chain_def dict_def split: if_splits)

lemma subtype_chain_acyclic: "acyclic (subtype_rel subtype_chain)"
  unfolding subtype_chain_rel
  apply (simp add: acyclic_insert rtrancl_insert)
  apply (simp add: acyclic_def)
  done

text \<open>
  The chain \<^verbatim>\<open>C\<close>, \<^verbatim>\<open>B\<close>, \<^verbatim>\<open>A\<close> has no cycle, and its registration returns.
\<close>

theorem C10_witness:
  "acyclic (subtype_rel subtype_chain)
   \<and> (\<exists>r. register_array_types seed_types subtype_chain = Some r)"
  using C10_register_termination subtype_chain_acyclic by blast

subsection \<open>Subtype chains\<close>

lemma register_loop_mono: "register_loop m kvs A = Some R \<Longrightarrow> A \<subseteq> R"
proof (induction kvs arbitrary: A)
  case Nil
  then show ?case by simp
next
  case (Cons kv kvs)
  obtain k v where kv: "kv = (k, v)" by (cases kv)
  from Cons.prems kv obtain t where t: "follow m v = Some t"
    and rest: "register_loop m kvs (if t \<in> A then insert k A else A) = Some R"
    by (auto split: option.splits)
  from Cons.IH[OF rest] show ?case by (auto split: if_splits)
qed

lemma register_loop_adds:
  "register_loop m kvs A = Some R \<Longrightarrow> (k, v) \<in> set kvs \<Longrightarrow> follow m v = Some t \<Longrightarrow> t \<in> A
   \<Longrightarrow> k \<in> R"
proof (induction kvs arbitrary: A)
  case Nil
  then show ?case by simp
next
  case (Cons kv kvs)
  obtain k' v' where kv: "kv = (k', v')" by (cases kv)
  from Cons.prems(1) kv obtain t' where t': "follow m v' = Some t'"
    and rest: "register_loop m kvs (if t' \<in> A then insert k' A else A) = Some R"
    by (auto split: option.splits)
  show ?case
  proof (cases "(k, v) = (k', v')")
    case True
    with t' Cons.prems(3,4) rest have "register_loop m kvs (insert k A) = Some R" by simp
    from register_loop_mono[OF this] show ?thesis by simp
  next
    case False
    with Cons.prems(2) kv have "(k, v) \<in> set kvs" by auto
    moreover from Cons.prems(4) have "t \<in> (if t' \<in> A then insert k' A else A)" by simp
    ultimately show ?thesis using Cons.IH[OF rest _ Cons.prems(3)] by blast
  qed
qed

lemma dict_items_member: "dict kvs k = Some v \<Longrightarrow> (k, v) \<in> set (dict_items kvs)"
proof -
  assume a: "dict kvs k = Some v"
  then have "k \<in> fst ` set kvs"
    by (auto simp: dict_def dest!: map_of_SomeD intro: rev_image_eqI)
  with a show ?thesis by (force simp: dict_items_def)
qed

text \<open>
  The chain of base types is followed through: for a subtype \<open>c\<close> of a subtype \<open>b\<close> of
  \<open>a\<close>, where \<open>a\<close> is in the registry or is an array type of the same objects and is no
  subtype itself, the registration adds both \<open>c\<close> and \<open>b\<close> under the names they are
  written with. \<^verbatim>\<open>is_array\<close> then finds \<open>c\<close> when its name is written in lower case.
\<close>

lemma subtype_chain_registered:
  assumes c: "dict (subtype_pairs objs) c = Some b"
    and b: "dict (subtype_pairs objs) b = Some a"
    and a: "dict (subtype_pairs objs) a = None"
    and arr: "a \<in> array_types \<union> set (array_type_names objs)"
    and reg: "register_array_types array_types objs = Some R"
  shows "c \<in> R \<and> b \<in> R"
proof -
  let ?m = "dict (subtype_pairs objs)"
  have fa: "follow ?m a = Some a" using a by (subst follow.simps) simp
  have fb: "follow ?m b = Some a" using b fa by (subst follow.simps) simp
  from reg have loop: "register_loop ?m (dict_items (subtype_pairs objs))
      (array_types \<union> set (array_type_names objs)) = Some R"
    by (simp add: register_array_types_def Let_def)
  from register_loop_adds[OF loop dict_items_member[OF c] fb arr]
       register_loop_adds[OF loop dict_items_member[OF b] fa arr]
  show ?thesis by simp
qed

lemma subtype_chain_lower_case_is_array:
  assumes "dict (subtype_pairs objs) (Some c) = Some b"
    and "dict (subtype_pairs objs) b = Some a"
    and "dict (subtype_pairs objs) a = None"
    and "a \<in> array_types \<union> set (array_type_names objs)"
    and "register_array_types array_types objs = Some R"
    and "lower c = c"
  shows "is_array R c"
  using subtype_chain_registered[OF assms(1-5)] assms(6) by (simp add: is_array_def)

subsection \<open>Letter case\<close>

lemma register_subtype_chain:
  "register_array_types seed_types subtype_chain =
     Some (seed_types \<union> {Some ''A'', Some ''B'', Some ''C''})"
  by (auto simp: register_array_types_def subtype_chain_def dict_items_def dict_def
        follow.simps seed_types_def)

text \<open>
  Claim C6. After the registration of an array type \<^verbatim>\<open>A\<close>, a subtype \<^verbatim>\<open>B\<close> of
  \<^verbatim>\<open>A\<close> and a subtype \<^verbatim>\<open>C\<close> of \<^verbatim>\<open>B\<close>, \<^verbatim>\<open>is_array("C")\<close> should be true. The
  chain is followed and the three names enter the registry as they are written, but
  \<^verbatim>\<open>is_array\<close> looks for the name in lower case, \<^verbatim>\<open>c\<close>, which is not there: it
  returns false for \<^verbatim>\<open>C\<close> and for \<^verbatim>\<open>B\<close>.
\<close>

theorem C6_subtype_chain_upper_case:
  "register_array_types seed_types subtype_chain =
     Some (seed_types \<union> {Some ''A'', Some ''B'', Some ''C''})
   \<and> \<not> is_array (seed_types \<union> {Some ''A'', Some ''B'', Some ''C''}) ''C''
   \<and> \<not> is_array (seed_types \<union> {Some ''A'', Some ''B'', Some ''C''}) ''B''"
  using register_subtype_chain
  by (simp add: is_array_def lower_def lower_char_def seed_types_def)

text \<open>
  Claim C7. \<^verbatim>\<open>is_array\<close> should find every name of the registry under any casing.
  It puts the name it is asked for into lower case and leaves the names of the registry
  as they are: an array type declared as \<^verbatim>\<open>Word_Array\<close> enters the registry under that
  name, and no query finds it, neither \<^verbatim>\<open>Word_Array\<close> itself nor \<^verbatim>\<open>word_array\<close> nor
  \<^verbatim>\<open>WORD_ARRAY\<close>.
\<close>

theorem C7_mixed_case_name_not_found:
  "register_array_types seed_types [VhdlType (Some ''Word_Array'') A_array_type []] =
     Some (insert (Some ''Word_Array'') seed_types)
   \<and> \<not> is_array (insert (Some ''Word_Array'') seed_types) ''Word_Array''
   \<and> \<not> is_array (insert (Some ''Word_Array'') seed_types) ''word_array''
   \<and> \<not> is_array (insert (Some ''Word_Array'') seed_types) ''WORD_ARRAY''"
  by (simp add: register_array_types_def dict_items_def dict_def is_array_def lower_def
        lower_char_def seed_types_def)

subsection \<open>The registry file\<close>

lemma load_syntax_error_absorbed:
  "load_array_types array_types (Fails SyntaxError) = Inr (array_types, [])"
  by (simp add: load_array_types_def add_array_types_def)

lemma load_without_arrays:
  "has_arrays type_defs = Inr False \<Longrightarrow>
     load_array_types array_types (Evaluates type_defs) = Inr (array_types, [])"
  by (simp add: load_array_types_def add_array_types_def)

lemma load_other_errors_propagate:
  "e \<noteq> SyntaxError \<Longrightarrow> load_array_types array_types (Fails e) = Inl e"
  by (cases e) (simp_all add: load_array_types_def)

text \<open>
  Claim C9. A file content that is not the expected literal mapping should be treated as
  an empty mapping, with no error of any kind reaching the caller.
  \<^verbatim>\<open>load_array_types\<close> catches \<^verbatim>\<open>SyntaxError\<close> only. For a content that is a Python
  expression but no literal, as \<^verbatim>\<open>foo\<close>, \<^verbatim>\<open>ast.literal_eval\<close> raises
  \<^verbatim>\<open>ValueError\<close>, which leaves the method; the content \<^verbatim>\<open>42\<close> is a literal that is
  no mapping, and \<^verbatim>\<open>'arrays' in type_defs\<close> raises \<^verbatim>\<open>TypeError\<close> on it. This holds
  for every registry.
\<close>

theorem C9_errors_reach_caller:
  "load_array_types array_types (Fails ValueError) = Inl ValueError
   \<and> load_array_types array_types (Evaluates (PyInt 42)) = Inl TypeError"
  by (simp add: load_array_types_def add_array_types_def)

section \<open>Properties of the action interpreter\<close>

subsection \<open>Section markers\<close>




















subsection \<open>Examples with section markers\<close>







subsection \<open>Metacomments\<close>



























subsection \<open>Array ranges\<close>

lemma first_match_range_open:
  "first_match (vhdl_tokens S_array_range) (CHR ''('' # s) = Some (s, [], Some A_open_paren, Push S_nested_parens)"
  "first_match (vhdl_tokens S_nested_parens) (CHR ''('' # s) = Some (s, [], Some A_open_paren, Push S_nested_parens)"
  by (simp_all add: match_at_def)

lemma first_match_range_close:
  "first_match (vhdl_tokens S_array_range) (CHR '')'' # s) = Some (s, [], Some A_array_range_end, Pop 1)"
  "first_match (vhdl_tokens S_nested_parens) (CHR '')'' # s) = Some (s, [], Some A_close_paren, Pop 1)"
  by (simp_all add: match_at_def)

lemma first_match_range_other:
  "c \<noteq> CHR ''('' \<Longrightarrow> c \<noteq> CHR '')'' \<Longrightarrow> first_match (vhdl_tokens S_array_range) (c # s) = None"
  "c \<noteq> CHR ''('' \<Longrightarrow> c \<noteq> CHR '')'' \<Longrightarrow> first_match (vhdl_tokens S_nested_parens) (c # s) = None"
  by (simp_all add: match_at_def)

lemma first_match_range_stack_open:
  "first_match (vhdl_tokens (hd (range_stack d stk))) (CHR ''('' # s) = Some (s, [], Some A_open_paren, Push S_nested_parens)"
  by (cases d) (simp_all add: match_at_def)

lemma first_match_range_stack_other:
  "c \<noteq> CHR ''('' \<Longrightarrow> c \<noteq> CHR '')'' \<Longrightarrow> first_match (vhdl_tokens (hd (range_stack d stk))) (c # s) = None"
  by (cases d) (simp_all add: match_at_def)










end
